theory Spec2Isabelle
  imports Main
begin

section \<open>Go values\<close>

text \<open>
  A Go byte slice and a Go string are both sequences of bytes; an \<open>error\<close> value is
  represented by the text its \<open>Error()\<close> method returns, and the nil error by \<open>None\<close>.
  A function returning \<open>(T, error)\<close> whose callers look at the value only when the error
  is nil is a function into \<open>go_error + T\<close>.  A Go function either returns or panics.
\<close>

type_synonym bytes = string
type_synonym go_error = string

datatype panic = IndexOutOfRange | NilDereference

datatype 'a go = Return 'a | Panic panic

section \<open>Package security of the runtime: \<open>GetCertChain\<close>\<close>

text \<open>
  The names of the three environment variables are constants of package \<open>consts\<close>,
  which lies outside the two files verified here; they are parameters of the model.
  \<open>os.Getenv\<close> is the process environment: a function from names to values that
  yields the empty string for a variable that is not set.
\<close>

record env_names =
  TrustAnchorsEnvVar :: string
  CertChainEnvVar :: string
  CertKeyEnvVar :: string

record CertChain =
  RootCA :: bytes
  Cert :: bytes
  Key :: bytes

text \<open>
  \<open>GetCertChain\<close>, statement by statement.  The third test repeats \<open>cert == ""\<close>, as the
  source does.
\<close>

definition GetCertChain ::
  "env_names \<Rightarrow> (string \<Rightarrow> string) \<Rightarrow> CertChain option \<times> go_error option" where
  "GetCertChain c getenv =
    (let trustAnchors = getenv (TrustAnchorsEnvVar c) in
     if trustAnchors = '''' then
       (None, Some (''couldn't find trust anchors in environment variable '' @ TrustAnchorsEnvVar c))
     else
       let cert = getenv (CertChainEnvVar c) in
       if cert = '''' then
         (None, Some (''couldn't find cert chain in environment variable '' @ CertChainEnvVar c))
       else
         let key = getenv (CertKeyEnvVar c) in
         if cert = '''' then
           (None, Some (''couldn't find cert key in environment variable '' @ CertKeyEnvVar c))
         else
           (Some \<lparr>RootCA = trustAnchors, Cert = cert, Key = key\<rparr>, None))"

text \<open>An environment in which the trust anchors and the chain are set and the key is not.\<close>

definition dapr_env_names :: env_names where
  "dapr_env_names =
    \<lparr>TrustAnchorsEnvVar = ''DAPR_TRUST_ANCHORS'', CertChainEnvVar = ''DAPR_CERT_CHAIN'',
     CertKeyEnvVar = ''DAPR_CERT_KEY''\<rparr>"

definition env_without_key :: "string \<Rightarrow> string" where
  "env_without_key n =
    (if n = ''DAPR_TRUST_ANCHORS'' then ''anchors''
     else if n = ''DAPR_CERT_CHAIN'' then ''chain''
     else '''')"

section \<open>Package server of sentry: the data\<close>

text \<open>
  A gRPC status error is its code and its message; \<open>status.Error\<close> and \<open>status.Errorf\<close>
  build one (the codes used here are never \<open>OK\<close>, for which they would return nil).
\<close>

datatype codes = InvalidArgument | PermissionDenied | Internal

record status =
  code :: codes
  message :: string

definition status_Error :: "codes \<Rightarrow> string \<Rightarrow> status" where
  "status_Error c msg = \<lparr>code = c, message = msg\<rparr>"

text \<open>
  The request message.  \<open>TokenValidator\<close> is a protocol-buffers enumeration, carried as
  its number.
\<close>

type_synonym TokenValidator = int

record SignCertificateRequest =
  Id :: string
  Token :: string
  Namespace :: string
  CertificateSigningRequest :: bytes
  TokenValidator :: TokenValidator

text \<open>\<open>time.Time\<close> by the two readings \<open>timestamppb.New\<close> takes of it.\<close>

record Time =
  Unix :: int
  Nanosecond :: int

record Timestamp =
  Seconds :: int
  Nanos :: int

definition timestamppb_New :: "Time \<Rightarrow> Timestamp" where
  "timestamppb_New t = \<lparr>Seconds = Unix t, Nanos = Nanosecond t\<rparr>"

record SignCertificateResponse =
  WorkloadCertificate :: bytes
  TrustChainCertificates :: "bytes list"
  ValidUntil :: Timestamp

text \<open>The fields of \<open>pem.Block\<close>, \<open>x509.CertificateRequest\<close> and \<open>x509.Certificate\<close> in use.\<close>

record pem_Block =
  Type :: string
  Bytes :: bytes

record CertificateRequest =
  RawTBSCertificateRequest :: bytes
  Signature :: bytes
  PublicKey :: bytes
  SignatureAlgorithm :: int

record Certificate =
  Raw :: bytes
  NotAfter :: Time

text \<open>
  \<open>ca.SignRequest\<close>; its fields carry the prefix \<open>sr_\<close> to keep them apart from those of
  the request message and of the certificate request.
\<close>

record SignRequest =
  sr_PublicKey :: bytes
  sr_SignatureAlgorithm :: int
  sr_TrustDomain :: string
  sr_Namespace :: string
  sr_AppID :: string
  sr_DNS :: "string list"

text \<open>
  A chain is a slice of pointers to certificates, and a pointer may be nil.  A validator
  is its \<open>Validate\<close> method, which returns the trust domain (by its \<open>String()\<close>) or an
  error; the signer is its two methods.
\<close>

type_synonym chain = "Certificate option list"

type_synonym Validator = "SignCertificateRequest \<Rightarrow> go_error + string"

record Signer =
  SignIdentity :: "SignRequest \<Rightarrow> go_error + chain"
  TrustAnchors :: bytes

record server =
  vals :: "TokenValidator \<rightharpoonup> Validator"
  defaultValidator :: TokenValidator
  ca :: Signer

text \<open>
  What \<open>signCertificate\<close> uses from outside its file: the enumeration's
  constant \<open>SignCertificateRequest_UNKNOWN\<close> and its \<open>String\<close> method, the current
  namespace of package \<open>security\<close>, the PEM decoder, the PKCS#10 parser, the check of a
  request's signature, and the chain encoder of package \<open>pem\<close>.  They are parameters.
\<close>

record externals =
  SignCertificateRequest_UNKNOWN :: TokenValidator
  TokenValidator_String :: "TokenValidator \<Rightarrow> string"
  CurrentNamespace :: string
  pem_Decode :: "bytes \<Rightarrow> pem_Block option"
  ParseCertificateRequest :: "bytes \<Rightarrow> go_error + CertificateRequest"
  CheckSignature :: "CertificateRequest \<Rightarrow> go_error option"
  EncodeX509Chain :: "chain \<Rightarrow> go_error + bytes"

text \<open>
  Every call that leaves the function is an event of the trace, in the order of the
  calls: the log lines (level, format string, arguments), the validator, the CSR
  functions, the two methods of the signer, the encoder and the monitoring counters.
\<close>

datatype level = Debug | Error

datatype event =
    EvLog level string "string list"
  | EvValidate TokenValidator SignCertificateRequest
  | EvPemDecode bytes
  | EvParseCertificateRequest bytes
  | EvCheckSignature CertificateRequest
  | EvSignIdentity SignRequest
  | EvEncodeX509Chain chain
  | EvTrustAnchors
  | EvCertSignRequestReceived
  | EvCertSignFailed string
  | EvCertSignSucceed

type_synonym result = "(SignCertificateResponse option \<times> status option) go \<times> event list"

section \<open>Package server of sentry: the functions\<close>

text \<open>Lines 110 to 113: the validator in effect.\<close>

definition effectiveValidator :: "externals \<Rightarrow> server \<Rightarrow> SignCertificateRequest \<Rightarrow> TokenValidator" where
  "effectiveValidator x s req =
    (if TokenValidator req \<noteq> SignCertificateRequest_UNKNOWN x
        \<and> TokenValidator_String x (TokenValidator req) \<noteq> ''''
     then TokenValidator req
     else defaultValidator s)"

text \<open>Lines 155 to 163: the DNS names, a switch whose first matching case wins.\<close>

definition dnsNames :: "string \<Rightarrow> string \<Rightarrow> string \<Rightarrow> string list" where
  "dnsNames currentNamespace namespace appID =
    (if namespace = currentNamespace \<and> appID = ''dapr-injector'' then
       [''dapr-sidecar-injector.'' @ namespace @ ''.svc'']
     else if namespace = currentNamespace \<and> appID = ''dapr-operator'' then
       [''dapr-webhook.'' @ namespace @ ''.svc'']
     else
       [appID @ ''.'' @ namespace @ ''.svc.cluster.local''])"

text \<open>Lines 165 to 172: the request handed to the signer.\<close>

definition signRequest ::
  "externals \<Rightarrow> SignCertificateRequest \<Rightarrow> CertificateRequest \<Rightarrow> string \<Rightarrow> SignRequest" where
  "signRequest x req csr trustDomain =
    \<lparr>sr_PublicKey = PublicKey csr, sr_SignatureAlgorithm = SignatureAlgorithm csr,
     sr_TrustDomain = trustDomain, sr_Namespace = Namespace req, sr_AppID = Id req,
     sr_DNS = dnsNames (CurrentNamespace x) (Namespace req) (Id req)\<rparr>"

text \<open>
  Lines 109 to 191, with the trace written out at every exit.  The context argument
  carries cancellation only and is left out; the request pointer is not nil, and the
  registry holds no nil validator.  In the response literal the call of
  \<open>TrustAnchors\<close> stands before the read of \<open>chain[0]\<close>, which panics on an empty
  chain and on a nil first pointer.
\<close>

definition signCertificate :: "externals \<Rightarrow> server \<Rightarrow> SignCertificateRequest \<Rightarrow> result" where
  "signCertificate x s req =
    (let validator = effectiveValidator x s req in
     if validator = SignCertificateRequest_UNKNOWN x then
       (Return (None, Some (status_Error InvalidArgument
          ''a validator name must be specified in this environment'')), [])
     else case vals s validator of
       None \<Rightarrow>
         (Return (None, Some (status_Error InvalidArgument
            ''the requested validator is not enabled'')), [])
     | Some v \<Rightarrow>
       let t1 = [EvLog Debug ''Processing SignCertificate request for %s/%s (validator: %s)''
                   [Namespace req, Id req, TokenValidator_String x validator],
                 EvValidate validator req] in
       case v req of
         Inl err \<Rightarrow> (Return (None, Some (status_Error PermissionDenied err)), t1)
       | Inr trustDomain \<Rightarrow>
         let t2 = t1 @ [EvPemDecode (CertificateSigningRequest req)] in
         case pem_Decode x (CertificateSigningRequest req) of
           None \<Rightarrow>
             (Return (None, Some (status_Error InvalidArgument
                ''invalid certificate signing request'')),
              t2 @ [EvLog Debug ''Invalid CSR: PEM block is nil'' []])
         | Some der \<Rightarrow>
           if Type der \<noteq> ''CERTIFICATE REQUEST'' \<and> Type der \<noteq> ''CERTIFICATE'' then
             (Return (None, Some (status_Error InvalidArgument
                ''invalid certificate signing request'')),
              t2 @ [EvLog Debug ''Invalid CSR: PEM block type is invalid: %q'' [Type der]])
           else
             let t3 = t2 @ [EvParseCertificateRequest (Bytes der)] in
             case ParseCertificateRequest x (Bytes der) of
               Inl err \<Rightarrow>
                 (Return (None, Some (status_Error InvalidArgument
                    (''failed to parse certificate signing request: '' @ err))),
                  t3 @ [EvLog Debug ''Failed to parse CSR: %v'' [err]])
             | Inr csr \<Rightarrow>
               let t4 = t3 @ [EvCheckSignature csr] in
               if CheckSignature x csr \<noteq> None then
                 (Return (None, Some (status_Error InvalidArgument ''invalid signature'')),
                  t4 @ [EvLog Debug ''Invalid CSR: invalid signature'' []])
               else
                 let t5 = t4 @ [EvSignIdentity (signRequest x req csr trustDomain)] in
                 case SignIdentity (ca s) (signRequest x req csr trustDomain) of
                   Inl err \<Rightarrow>
                     (Return (None, Some (status_Error Internal ''failed to sign certificate'')),
                      t5 @ [EvLog Error ''Error signing identity: %v'' [err]])
                 | Inr chain \<Rightarrow>
                   let t6 = t5 @ [EvEncodeX509Chain chain] in
                   case EncodeX509Chain x chain of
                     Inl err \<Rightarrow>
                       (Return (None, Some (status_Error Internal
                          ''failed to encode certificate chain'')),
                        t6 @ [EvLog Error ''Error encoding certificate chain: %v'' [err]])
                   | Inr chainPEM \<Rightarrow>
                     let t7 = t6 @ [EvTrustAnchors] in
                     (case chain of
                        [] \<Rightarrow> (Panic IndexOutOfRange, t7)
                      | None # _ \<Rightarrow> (Panic NilDereference, t7)
                      | Some leaf # _ \<Rightarrow>
                          (Return (Some \<lparr>WorkloadCertificate = chainPEM,
                                          TrustChainCertificates = [TrustAnchors (ca s)],
                                          ValidUntil = timestamppb_New (NotAfter leaf)\<rparr>, None),
                           t7)))"

text \<open>
  Lines 98 to 107.  A panic of \<open>signCertificate\<close> unwinds through the dispatcher: the
  two counters of the exit are not reached.
\<close>

definition SignCertificate :: "externals \<Rightarrow> server \<Rightarrow> SignCertificateRequest \<Rightarrow> result" where
  "SignCertificate x s req =
    (case signCertificate x s req of
       (Panic p, t) \<Rightarrow> (Panic p, EvCertSignRequestReceived # t)
     | (Return (resp, Some err), t) \<Rightarrow>
         (Return (None, Some err), EvCertSignRequestReceived # t @ [EvCertSignFailed ''sign''])
     | (Return (resp, None), t) \<Rightarrow>
         (Return (resp, None), EvCertSignRequestReceived # t @ [EvCertSignSucceed]))"

text \<open>
  Readings of a trace: the calls of the signer's methods, the calls of a validator, and
  the increments of the monitoring counters.
\<close>

fun invokesCA :: "event \<Rightarrow> bool" where
  "invokesCA (EvSignIdentity _) = True"
| "invokesCA EvTrustAnchors = True"
| "invokesCA _ = False"

fun isValidate :: "event \<Rightarrow> bool" where
  "isValidate (EvValidate _ _) = True"
| "isValidate _ = False"

fun isCounter :: "event \<Rightarrow> bool" where
  "isCounter EvCertSignRequestReceived = True"
| "isCounter (EvCertSignFailed _) = True"
| "isCounter EvCertSignSucceed = True"
| "isCounter _ = False"

section \<open>Sample collaborators and requests\<close>

text \<open>
  A small deployment to run the functions on: one validator, registered under kind 1,
  that accepts one token; toy stand-ins for the PEM decoder, the parser, the signature
  check and the encoder; a signer that issues a leaf and its issuer.
\<close>

definition ex_csr :: CertificateRequest where
  "ex_csr = \<lparr>RawTBSCertificateRequest = ''tbs'', Signature = ''sig'', PublicKey = ''pk'',
             SignatureAlgorithm = 10\<rparr>"

definition ex_leaf :: Certificate where
  "ex_leaf = \<lparr>Raw = ''leaf'', NotAfter = \<lparr>Unix = 1700000000, Nanosecond = 5\<rparr>\<rparr>"

definition ex_issuer :: Certificate where
  "ex_issuer = \<lparr>Raw = ''issuer'', NotAfter = \<lparr>Unix = 1900000000, Nanosecond = 0\<rparr>\<rparr>"

definition ex_externals :: externals where
  "ex_externals =
    \<lparr>SignCertificateRequest_UNKNOWN = 0,
     TokenValidator_String = (\<lambda>k. if k = 0 then ''UNKNOWN'' else if k = 1 then ''INSECURE''
                                    else ''KUBERNETES''),
     CurrentNamespace = ''dapr-system'',
     pem_Decode = (\<lambda>b. if b = ''csr'' then Some \<lparr>Type = ''CERTIFICATE REQUEST'', Bytes = ''der''\<rparr>
                         else if b = ''key'' then Some \<lparr>Type = ''PRIVATE KEY'', Bytes = ''der''\<rparr>
                         else if b = ''garbled'' then Some \<lparr>Type = ''CERTIFICATE REQUEST'', Bytes = ''junk''\<rparr>
                         else if b = ''forged'' then Some \<lparr>Type = ''CERTIFICATE'', Bytes = ''forged-der''\<rparr>
                         else None),
     ParseCertificateRequest = (\<lambda>d. if d = ''der'' then Inr ex_csr
                         else if d = ''forged-der'' then Inr (ex_csr\<lparr>Signature := ''bad''\<rparr>)
                         else Inl ''asn1: syntax error''),
     CheckSignature = (\<lambda>c. if Signature c = ''sig'' then None
                         else Some ''x509: ECDSA verification failure''),
     EncodeX509Chain = (\<lambda>ch. if ch = [] then Inl ''no certificates in chain''
                         else Inr ''chain-pem'')\<rparr>"

definition ex_validator :: Validator where
  "ex_validator r = (if Token r = ''good-token'' then Inr ''public'' else Inl ''token rejected'')"

definition ex_server :: server where
  "ex_server =
    \<lparr>vals = [1 \<mapsto> ex_validator],
     defaultValidator = 1,
     ca = \<lparr>SignIdentity = (\<lambda>sr. if sr_AppID sr = ''unsignable'' then Inl ''key store locked''
                                else Inr [Some ex_leaf, Some ex_issuer]),
           TrustAnchors = ''anchors''\<rparr>\<rparr>"

definition ex_request :: SignCertificateRequest where
  "ex_request =
    \<lparr>Id = ''orders'', Token = ''good-token'', Namespace = ''default'',
     CertificateSigningRequest = ''csr'', TokenValidator = 0\<rparr>"

section \<open>Properties of \<open>GetCertChain\<close>\<close>

text \<open>
  Claim C10.  \<open>GetCertChain\<close> returns an error when the trust-anchors variable is empty
  and when the cert-chain variable is empty; the key variable is never tested.  Whenever
  trust anchors and chain are set, the call succeeds with the key field holding whatever
  the key variable holds, so with an empty key variable it returns a chain whose \<open>Key\<close>
  is empty and a nil error.
\<close>

theorem GetCertChain_key_unchecked:
  "(getenv (TrustAnchorsEnvVar c) = '''' \<longrightarrow>
      GetCertChain c getenv =
        (None, Some (''couldn't find trust anchors in environment variable '' @ TrustAnchorsEnvVar c)))
   \<and> (getenv (TrustAnchorsEnvVar c) \<noteq> '''' \<and> getenv (CertChainEnvVar c) = '''' \<longrightarrow>
      GetCertChain c getenv =
        (None, Some (''couldn't find cert chain in environment variable '' @ CertChainEnvVar c)))
   \<and> (getenv (TrustAnchorsEnvVar c) \<noteq> '''' \<and> getenv (CertChainEnvVar c) \<noteq> '''' \<longrightarrow>
      GetCertChain c getenv =
        (Some \<lparr>RootCA = getenv (TrustAnchorsEnvVar c), Cert = getenv (CertChainEnvVar c),
               Key = getenv (CertKeyEnvVar c)\<rparr>, None))
   \<and> (getenv (TrustAnchorsEnvVar c) \<noteq> '''' \<and> getenv (CertChainEnvVar c) \<noteq> ''''
        \<and> getenv (CertKeyEnvVar c) = '''' \<longrightarrow>
      GetCertChain c getenv =
        (Some \<lparr>RootCA = getenv (TrustAnchorsEnvVar c), Cert = getenv (CertChainEnvVar c),
               Key = ''''\<rparr>, None))"
  by (simp add: GetCertChain_def Let_def)

theorem GetCertChain_key_unchecked_witness:
  "env_without_key (TrustAnchorsEnvVar dapr_env_names) \<noteq> ''''
   \<and> env_without_key (CertChainEnvVar dapr_env_names) \<noteq> ''''
   \<and> env_without_key (CertKeyEnvVar dapr_env_names) = ''''
   \<and> GetCertChain dapr_env_names env_without_key =
       (Some \<lparr>RootCA = ''anchors'', Cert = ''chain'', Key = ''''\<rparr>, None)"
proof -
  have ta: "env_without_key (TrustAnchorsEnvVar dapr_env_names) = ''anchors''"
    by (simp add: env_without_key_def dapr_env_names_def)
  have cc: "env_without_key (CertChainEnvVar dapr_env_names) = ''chain''"
    by (simp add: env_without_key_def dapr_env_names_def)
  have ck: "env_without_key (CertKeyEnvVar dapr_env_names) = ''''"
    by (simp add: env_without_key_def dapr_env_names_def)
  show ?thesis
    using GetCertChain_key_unchecked [of env_without_key dapr_env_names]
    by (simp add: ta cc ck)
qed

section \<open>Runs of the sample deployment\<close>

lemmas ex_defs =
  ex_csr_def ex_leaf_def ex_issuer_def ex_validator_def ex_externals_def ex_server_def
  ex_request_def

lemmas run_defs =
  signCertificate_def effectiveValidator_def signRequest_def dnsNames_def status_Error_def
  timestamppb_New_def Let_def

lemma ex_effective:
  "effectiveValidator ex_externals ex_server (ex_request\<lparr>CertificateSigningRequest := b\<rparr>) = 1"
  "effectiveValidator ex_externals ex_server (ex_request\<lparr>Token := t\<rparr>) = 1"
  "effectiveValidator ex_externals ex_server (ex_request\<lparr>Id := i\<rparr>) = 1"
  "effectiveValidator ex_externals ex_server ex_request = 1"
  "effectiveValidator ex_externals ex_server (ex_request\<lparr>TokenValidator := 2\<rparr>) = 2"
  "effectiveValidator ex_externals (ex_server\<lparr>defaultValidator := 0\<rparr>) ex_request = 0"
  "effectiveValidator (ex_externals\<lparr>EncodeX509Chain := enc\<rparr>) srv ex_request = defaultValidator srv"
  by (simp_all add: effectiveValidator_def ex_defs)

lemma ex_unknown: "SignCertificateRequest_UNKNOWN ex_externals = 0"
  "SignCertificateRequest_UNKNOWN (ex_externals\<lparr>EncodeX509Chain := enc\<rparr>) = 0"
  by (simp_all add: ex_defs)

lemma ex_vals: "vals ex_server 1 = Some ex_validator" "vals ex_server 2 = None"
  by (simp_all add: ex_defs)

lemma ex_run_ok:
  "signCertificate ex_externals ex_server ex_request =
    (Return (Some \<lparr>WorkloadCertificate = ''chain-pem'', TrustChainCertificates = [''anchors''],
                    ValidUntil = \<lparr>Seconds = 1700000000, Nanos = 5\<rparr>\<rparr>, None),
     [EvLog Debug ''Processing SignCertificate request for %s/%s (validator: %s)''
        [''default'', ''orders'', ''INSECURE''],
      EvValidate 1 ex_request,
      EvPemDecode ''csr'',
      EvParseCertificateRequest ''der'',
      EvCheckSignature ex_csr,
      EvSignIdentity (signRequest ex_externals ex_request ex_csr ''public''),
      EvEncodeX509Chain [Some ex_leaf, Some ex_issuer],
      EvTrustAnchors])"
  by (simp add: run_defs ex_defs)

lemma ex_run_unsignable:
  "signCertificate ex_externals ex_server (ex_request\<lparr>Id := ''unsignable''\<rparr>) =
    (Return (None, Some \<lparr>code = Internal, message = ''failed to sign certificate''\<rparr>),
     [EvLog Debug ''Processing SignCertificate request for %s/%s (validator: %s)''
        [''default'', ''unsignable'', ''INSECURE''],
      EvValidate 1 (ex_request\<lparr>Id := ''unsignable''\<rparr>),
      EvPemDecode ''csr'',
      EvParseCertificateRequest ''der'',
      EvCheckSignature ex_csr,
      EvSignIdentity (signRequest ex_externals (ex_request\<lparr>Id := ''unsignable''\<rparr>) ex_csr ''public''),
      EvLog Error ''Error signing identity: %v'' [''key store locked'']])"
  by (simp add: run_defs ex_defs)

lemma ex_run_unencodable:
  "signCertificate (ex_externals\<lparr>EncodeX509Chain := (\<lambda>ch. Inl ''encoding failed'')\<rparr>)
      ex_server ex_request =
    (Return (None, Some \<lparr>code = Internal, message = ''failed to encode certificate chain''\<rparr>),
     [EvLog Debug ''Processing SignCertificate request for %s/%s (validator: %s)''
        [''default'', ''orders'', ''INSECURE''],
      EvValidate 1 ex_request,
      EvPemDecode ''csr'',
      EvParseCertificateRequest ''der'',
      EvCheckSignature ex_csr,
      EvSignIdentity (signRequest ex_externals ex_request ex_csr ''public''),
      EvEncodeX509Chain [Some ex_leaf, Some ex_issuer],
      EvLog Error ''Error encoding certificate chain: %v'' [''encoding failed'']])"
  by (simp add: run_defs ex_defs)

lemma ex_run_empty_chain:
  "signCertificate ex_externals
      (ex_server\<lparr>ca := \<lparr>SignIdentity = (\<lambda>sr. Inr []), TrustAnchors = ''anchors''\<rparr>\<rparr>) ex_request =
    (Return (None, Some \<lparr>code = Internal, message = ''failed to encode certificate chain''\<rparr>),
     [EvLog Debug ''Processing SignCertificate request for %s/%s (validator: %s)''
        [''default'', ''orders'', ''INSECURE''],
      EvValidate 1 ex_request,
      EvPemDecode ''csr'',
      EvParseCertificateRequest ''der'',
      EvCheckSignature ex_csr,
      EvSignIdentity (signRequest ex_externals ex_request ex_csr ''public''),
      EvEncodeX509Chain [],
      EvLog Error ''Error encoding certificate chain: %v'' [''no certificates in chain'']])"
  by (simp add: run_defs ex_defs)

lemma ex_run_empty_chain_encoded:
  "signCertificate (ex_externals\<lparr>EncodeX509Chain := (\<lambda>ch. Inr '''')\<rparr>)
      (ex_server\<lparr>ca := \<lparr>SignIdentity = (\<lambda>sr. Inr []), TrustAnchors = ''anchors''\<rparr>\<rparr>) ex_request =
    (Panic IndexOutOfRange,
     [EvLog Debug ''Processing SignCertificate request for %s/%s (validator: %s)''
        [''default'', ''orders'', ''INSECURE''],
      EvValidate 1 ex_request,
      EvPemDecode ''csr'',
      EvParseCertificateRequest ''der'',
      EvCheckSignature ex_csr,
      EvSignIdentity (signRequest ex_externals ex_request ex_csr ''public''),
      EvEncodeX509Chain [],
      EvTrustAnchors])"
  by (simp add: run_defs ex_defs)

lemma ex_run_rejected:
  "signCertificate ex_externals ex_server (ex_request\<lparr>Token := ''stolen''\<rparr>) =
    (Return (None, Some \<lparr>code = PermissionDenied, message = ''token rejected''\<rparr>),
     [EvLog Debug ''Processing SignCertificate request for %s/%s (validator: %s)''
        [''default'', ''orders'', ''INSECURE''],
      EvValidate 1 (ex_request\<lparr>Token := ''stolen''\<rparr>)])"
  by (simp add: run_defs ex_defs)

lemma ex_run_unspecified:
  "signCertificate ex_externals (ex_server\<lparr>defaultValidator := 0\<rparr>) ex_request =
    (Return (None, Some \<lparr>code = InvalidArgument,
       message = ''a validator name must be specified in this environment''\<rparr>), [])"
  by (simp add: run_defs ex_defs)

lemma ex_run_not_enabled:
  "signCertificate ex_externals ex_server (ex_request\<lparr>TokenValidator := 2\<rparr>) =
    (Return (None, Some \<lparr>code = InvalidArgument,
       message = ''the requested validator is not enabled''\<rparr>), [])"
  by (simp add: run_defs ex_defs)

section \<open>Properties of \<open>signCertificate\<close>\<close>

subsection \<open>Facts shared by the properties\<close>

lemma validate_once:
  "effectiveValidator x s req \<noteq> SignCertificateRequest_UNKNOWN x \<Longrightarrow>
   vals s (effectiveValidator x s req) = Some v \<Longrightarrow>
   filter isValidate (snd (signCertificate x s req)) =
     [EvValidate (effectiveValidator x s req) req]"
  by (simp add: signCertificate_def Let_def split: option.split sum.split list.split)

lemma unresolved_validator:
  "effectiveValidator x s req = SignCertificateRequest_UNKNOWN x
     \<or> vals s (effectiveValidator x s req) = None \<Longrightarrow>
   \<exists>msg. signCertificate x s req =
     (Return (None, Some (status_Error InvalidArgument msg)), [])"
  by (auto simp add: signCertificate_def Let_def)

lemma signIdentity_event:
  "EvSignIdentity sr \<in> set (snd (signCertificate x s req)) \<Longrightarrow>
     sr_DNS sr = dnsNames (CurrentNamespace x) (Namespace req) (Id req)
     \<and> sr_Namespace sr = Namespace req \<and> sr_AppID sr = Id req"
  by (auto simp add: signCertificate_def signRequest_def Let_def
      split: if_splits option.splits sum.splits list.splits)

lemma signCertificate_no_counters:
  "filter isCounter (snd (signCertificate x s req)) = []"
  by (simp add: signCertificate_def Let_def split: option.split sum.split list.split)

lemma SignCertificate_cases:
  "SignCertificate x s req =
    (case fst (signCertificate x s req) of
       Panic p \<Rightarrow> (Panic p, EvCertSignRequestReceived # snd (signCertificate x s req))
     | Return (resp, Some err) \<Rightarrow>
         (Return (None, Some err),
          EvCertSignRequestReceived # snd (signCertificate x s req) @ [EvCertSignFailed ''sign''])
     | Return (resp, None) \<Rightarrow>
         (Return (resp, None),
          EvCertSignRequestReceived # snd (signCertificate x s req) @ [EvCertSignSucceed]))"
  by (simp add: SignCertificate_def split: prod.split go.split option.split)

subsection \<open>The certificate signing request\<close>

text \<open>
  Claim C1.  Once the validator in effect has accepted the request: a CSR that does not
  decode as a PEM block yields \<open>InvalidArgument\<close>; so does a block whose type is neither
  \<open>CERTIFICATE REQUEST\<close> nor \<open>CERTIFICATE\<close>; bytes that do not parse as a PKCS#10
  request yield \<open>InvalidArgument\<close> with the parser's error text appended to the message;
  a request whose signature check fails yields \<open>InvalidArgument\<close> with the message
  \<open>invalid signature\<close>, whatever the check reported.  In all four cases no method of
  the signer is called.
\<close>

theorem signCertificate_rejects_bad_csr:
  assumes "effectiveValidator x s req \<noteq> SignCertificateRequest_UNKNOWN x"
    and "vals s (effectiveValidator x s req) = Some v"
    and "v req = Inr trustDomain"
  shows
   "(pem_Decode x (CertificateSigningRequest req) = None \<longrightarrow>
       fst (signCertificate x s req) =
         Return (None, Some \<lparr>code = InvalidArgument,
                              message = ''invalid certificate signing request''\<rparr>)
       \<and> filter invokesCA (snd (signCertificate x s req)) = [])
    \<and> (\<forall>der. pem_Decode x (CertificateSigningRequest req) = Some der
          \<and> Type der \<noteq> ''CERTIFICATE REQUEST'' \<and> Type der \<noteq> ''CERTIFICATE'' \<longrightarrow>
       fst (signCertificate x s req) =
         Return (None, Some \<lparr>code = InvalidArgument,
                              message = ''invalid certificate signing request''\<rparr>)
       \<and> filter invokesCA (snd (signCertificate x s req)) = [])
    \<and> (\<forall>der err. pem_Decode x (CertificateSigningRequest req) = Some der
          \<and> (Type der = ''CERTIFICATE REQUEST'' \<or> Type der = ''CERTIFICATE'')
          \<and> ParseCertificateRequest x (Bytes der) = Inl err \<longrightarrow>
       fst (signCertificate x s req) =
         Return (None, Some \<lparr>code = InvalidArgument,
                              message = ''failed to parse certificate signing request: '' @ err\<rparr>)
       \<and> filter invokesCA (snd (signCertificate x s req)) = [])
    \<and> (\<forall>der csr err. pem_Decode x (CertificateSigningRequest req) = Some der
          \<and> (Type der = ''CERTIFICATE REQUEST'' \<or> Type der = ''CERTIFICATE'')
          \<and> ParseCertificateRequest x (Bytes der) = Inr csr
          \<and> CheckSignature x csr = Some err \<longrightarrow>
       fst (signCertificate x s req) =
         Return (None, Some \<lparr>code = InvalidArgument, message = ''invalid signature''\<rparr>)
       \<and> filter invokesCA (snd (signCertificate x s req)) = [])"
  using assms by (auto simp add: signCertificate_def status_Error_def Let_def)

theorem signCertificate_rejects_bad_csr_witness:
  "fst (signCertificate ex_externals ex_server
          (ex_request\<lparr>CertificateSigningRequest := ''not pem''\<rparr>)) =
     Return (None, Some \<lparr>code = InvalidArgument,
                          message = ''invalid certificate signing request''\<rparr>)
   \<and> filter invokesCA (snd (signCertificate ex_externals ex_server
          (ex_request\<lparr>CertificateSigningRequest := ''not pem''\<rparr>))) = []
   \<and> fst (signCertificate ex_externals ex_server
          (ex_request\<lparr>CertificateSigningRequest := ''key''\<rparr>)) =
     Return (None, Some \<lparr>code = InvalidArgument,
                          message = ''invalid certificate signing request''\<rparr>)
   \<and> fst (signCertificate ex_externals ex_server
          (ex_request\<lparr>CertificateSigningRequest := ''garbled''\<rparr>)) =
     Return (None, Some \<lparr>code = InvalidArgument,
               message = ''failed to parse certificate signing request: asn1: syntax error''\<rparr>)
   \<and> fst (signCertificate ex_externals ex_server
          (ex_request\<lparr>CertificateSigningRequest := ''forged''\<rparr>)) =
     Return (None, Some \<lparr>code = InvalidArgument, message = ''invalid signature''\<rparr>)
   \<and> filter invokesCA (snd (signCertificate ex_externals ex_server
          (ex_request\<lparr>CertificateSigningRequest := ''forged''\<rparr>))) = []"
proof -
  have eff: "effectiveValidator ex_externals ex_server
      (ex_request\<lparr>CertificateSigningRequest := b\<rparr>) \<noteq> SignCertificateRequest_UNKNOWN ex_externals"
    for b by (simp add: ex_effective ex_unknown)
  have reg: "vals ex_server (effectiveValidator ex_externals ex_server
      (ex_request\<lparr>CertificateSigningRequest := b\<rparr>)) = Some ex_validator"
    for b by (simp add: ex_effective ex_vals)
  have acc: "ex_validator (ex_request\<lparr>CertificateSigningRequest := b\<rparr>) = Inr ''public''"
    for b by (simp add: ex_validator_def ex_request_def)
  note inst = signCertificate_rejects_bad_csr [OF eff reg acc]
  have d1: "pem_Decode ex_externals
      (CertificateSigningRequest (ex_request\<lparr>CertificateSigningRequest := ''not pem''\<rparr>)) = None"
    by (simp add: ex_defs)
  have d2: "pem_Decode ex_externals
      (CertificateSigningRequest (ex_request\<lparr>CertificateSigningRequest := ''key''\<rparr>)) =
        Some \<lparr>Type = ''PRIVATE KEY'', Bytes = ''der''\<rparr>"
    by (simp add: ex_defs)
  have d3: "pem_Decode ex_externals
      (CertificateSigningRequest (ex_request\<lparr>CertificateSigningRequest := ''garbled''\<rparr>)) =
        Some \<lparr>Type = ''CERTIFICATE REQUEST'', Bytes = ''junk''\<rparr>"
    by (simp add: ex_defs)
  have p3: "ParseCertificateRequest ex_externals ''junk'' = Inl ''asn1: syntax error''"
    by (simp add: ex_defs)
  have d4: "pem_Decode ex_externals
      (CertificateSigningRequest (ex_request\<lparr>CertificateSigningRequest := ''forged''\<rparr>)) =
        Some \<lparr>Type = ''CERTIFICATE'', Bytes = ''forged-der''\<rparr>"
    by (simp add: ex_defs)
  have p4: "ParseCertificateRequest ex_externals ''forged-der'' =
      Inr (ex_csr\<lparr>Signature := ''bad''\<rparr>)"
    by (simp add: ex_defs)
  have c4: "CheckSignature ex_externals (ex_csr\<lparr>Signature := ''bad''\<rparr>) =
      Some ''x509: ECDSA verification failure''"
    by (simp add: ex_defs)
  from inst [of "''not pem''"] d1 have r1:
    "fst (signCertificate ex_externals ex_server
          (ex_request\<lparr>CertificateSigningRequest := ''not pem''\<rparr>)) =
     Return (None, Some \<lparr>code = InvalidArgument,
                          message = ''invalid certificate signing request''\<rparr>)
     \<and> filter invokesCA (snd (signCertificate ex_externals ex_server
          (ex_request\<lparr>CertificateSigningRequest := ''not pem''\<rparr>))) = []"
    by blast
  from inst [of "''key''"] d2 have r2:
    "fst (signCertificate ex_externals ex_server
          (ex_request\<lparr>CertificateSigningRequest := ''key''\<rparr>)) =
     Return (None, Some \<lparr>code = InvalidArgument,
                          message = ''invalid certificate signing request''\<rparr>)"
    by simp
  from inst [of "''garbled''"] d3 p3 have r3:
    "fst (signCertificate ex_externals ex_server
          (ex_request\<lparr>CertificateSigningRequest := ''garbled''\<rparr>)) =
     Return (None, Some \<lparr>code = InvalidArgument,
               message = ''failed to parse certificate signing request: asn1: syntax error''\<rparr>)"
    by simp
  from inst [of "''forged''"] d4 p4 c4 have r4:
    "fst (signCertificate ex_externals ex_server
          (ex_request\<lparr>CertificateSigningRequest := ''forged''\<rparr>)) =
     Return (None, Some \<lparr>code = InvalidArgument, message = ''invalid signature''\<rparr>)
     \<and> filter invokesCA (snd (signCertificate ex_externals ex_server
          (ex_request\<lparr>CertificateSigningRequest := ''forged''\<rparr>))) = []"
    by simp
  from r1 r2 r3 r4 show ?thesis by blast
qed

subsection \<open>The validator in effect\<close>

text \<open>
  Claim C2.  A requested kind that is specified (it is not \<open>UNKNOWN\<close>, and its name is
  not empty) is the kind in effect; for an unspecified request the configured default
  is.  The validator registered under the kind in effect is the one called, once.  When
  the kind in effect is still \<open>UNKNOWN\<close>, or nothing is registered under it, the result
  is \<open>InvalidArgument\<close> and the trace is empty: no validator, no CSR function and no
  signer method has been called.
\<close>

theorem signCertificate_validator_in_effect:
  "(TokenValidator req \<noteq> SignCertificateRequest_UNKNOWN x
      \<and> TokenValidator_String x (TokenValidator req) \<noteq> '''' \<longrightarrow>
      effectiveValidator x s req = TokenValidator req)
   \<and> (TokenValidator req = SignCertificateRequest_UNKNOWN x \<longrightarrow>
      effectiveValidator x s req = defaultValidator s)
   \<and> (effectiveValidator x s req \<noteq> SignCertificateRequest_UNKNOWN x
      \<and> vals s (effectiveValidator x s req) \<noteq> None \<longrightarrow>
      filter isValidate (snd (signCertificate x s req)) =
        [EvValidate (effectiveValidator x s req) req])
   \<and> (effectiveValidator x s req = SignCertificateRequest_UNKNOWN x
      \<or> vals s (effectiveValidator x s req) = None \<longrightarrow>
      (\<exists>msg. signCertificate x s req =
         (Return (None, Some \<lparr>code = InvalidArgument, message = msg\<rparr>), [])))"
proof (intro conjI impI)
  assume "TokenValidator req \<noteq> SignCertificateRequest_UNKNOWN x
      \<and> TokenValidator_String x (TokenValidator req) \<noteq> ''''"
  then show "effectiveValidator x s req = TokenValidator req"
    by (simp add: effectiveValidator_def)
next
  assume "TokenValidator req = SignCertificateRequest_UNKNOWN x"
  then show "effectiveValidator x s req = defaultValidator s"
    by (simp add: effectiveValidator_def)
next
  assume "effectiveValidator x s req \<noteq> SignCertificateRequest_UNKNOWN x
      \<and> vals s (effectiveValidator x s req) \<noteq> None"
  then obtain v where "effectiveValidator x s req \<noteq> SignCertificateRequest_UNKNOWN x"
    and "vals s (effectiveValidator x s req) = Some v" by auto
  then show "filter isValidate (snd (signCertificate x s req)) =
        [EvValidate (effectiveValidator x s req) req]"
    by (rule validate_once)
next
  assume "effectiveValidator x s req = SignCertificateRequest_UNKNOWN x
      \<or> vals s (effectiveValidator x s req) = None"
  then show "\<exists>msg. signCertificate x s req =
         (Return (None, Some \<lparr>code = InvalidArgument, message = msg\<rparr>), [])"
    using unresolved_validator [of x s req] by (simp add: status_Error_def)
qed

theorem signCertificate_validator_in_effect_witness:
  "TokenValidator (ex_request\<lparr>TokenValidator := 2\<rparr>) \<noteq> SignCertificateRequest_UNKNOWN ex_externals
   \<and> TokenValidator_String ex_externals (TokenValidator (ex_request\<lparr>TokenValidator := 2\<rparr>)) \<noteq> ''''
   \<and> effectiveValidator ex_externals ex_server (ex_request\<lparr>TokenValidator := 2\<rparr>) = 2
   \<and> vals ex_server 2 = None
   \<and> (\<exists>msg. signCertificate ex_externals ex_server (ex_request\<lparr>TokenValidator := 2\<rparr>) =
         (Return (None, Some \<lparr>code = InvalidArgument, message = msg\<rparr>), []))
   \<and> TokenValidator ex_request = SignCertificateRequest_UNKNOWN ex_externals
   \<and> effectiveValidator ex_externals ex_server ex_request = 1
   \<and> vals ex_server 1 \<noteq> None
   \<and> filter isValidate (snd (signCertificate ex_externals ex_server ex_request)) =
        [EvValidate 1 ex_request]"
proof -
  have a: "TokenValidator (ex_request\<lparr>TokenValidator := 2\<rparr>) \<noteq> SignCertificateRequest_UNKNOWN ex_externals"
    by (simp add: ex_defs)
  have b: "TokenValidator_String ex_externals (TokenValidator (ex_request\<lparr>TokenValidator := 2\<rparr>)) \<noteq> ''''"
    by (simp add: ex_defs)
  have c: "TokenValidator ex_request = SignCertificateRequest_UNKNOWN ex_externals"
    by (simp add: ex_defs)
  note i2 = signCertificate_validator_in_effect
    [of "ex_request\<lparr>TokenValidator := 2\<rparr>" ex_externals ex_server]
  note i0 = signCertificate_validator_in_effect [of ex_request ex_externals ex_server]
  from i2 a b have e2: "effectiveValidator ex_externals ex_server (ex_request\<lparr>TokenValidator := 2\<rparr>) = 2"
    by simp
  from i2 e2 have r2: "\<exists>msg. signCertificate ex_externals ex_server (ex_request\<lparr>TokenValidator := 2\<rparr>) =
         (Return (None, Some \<lparr>code = InvalidArgument, message = msg\<rparr>), [])"
    by (simp add: ex_vals)
  from i0 c have e0: "effectiveValidator ex_externals ex_server ex_request = 1"
    by (simp add: ex_defs)
  from i0 e0 have r0: "filter isValidate (snd (signCertificate ex_externals ex_server ex_request)) =
        [EvValidate 1 ex_request]"
    by (simp add: ex_vals ex_unknown)
  from a b c e2 r2 e0 r0 show ?thesis by (simp add: ex_vals)
qed

subsection \<open>A validator that rejects\<close>

text \<open>
  Claim C3.  When the validator in effect returns an error, the result is
  \<open>PermissionDenied\<close> with the validator's own message, and the trace ends with that
  one call: the signer is not called, no other validator is called and the call is not
  repeated.
\<close>

theorem signCertificate_validator_rejects:
  assumes "effectiveValidator x s req \<noteq> SignCertificateRequest_UNKNOWN x"
    and "vals s (effectiveValidator x s req) = Some v"
    and "v req = Inl err"
  shows "signCertificate x s req =
      (Return (None, Some \<lparr>code = PermissionDenied, message = err\<rparr>),
       [EvLog Debug ''Processing SignCertificate request for %s/%s (validator: %s)''
          [Namespace req, Id req, TokenValidator_String x (effectiveValidator x s req)],
        EvValidate (effectiveValidator x s req) req])
    \<and> filter invokesCA (snd (signCertificate x s req)) = []
    \<and> filter isValidate (snd (signCertificate x s req)) =
        [EvValidate (effectiveValidator x s req) req]"
  using assms by (simp add: signCertificate_def status_Error_def Let_def)

theorem signCertificate_validator_rejects_witness:
  "ex_validator (ex_request\<lparr>Token := ''stolen''\<rparr>) = Inl ''token rejected''
   \<and> fst (signCertificate ex_externals ex_server (ex_request\<lparr>Token := ''stolen''\<rparr>)) =
       Return (None, Some \<lparr>code = PermissionDenied, message = ''token rejected''\<rparr>)
   \<and> filter invokesCA (snd (signCertificate ex_externals ex_server
       (ex_request\<lparr>Token := ''stolen''\<rparr>))) = []
   \<and> filter isValidate (snd (signCertificate ex_externals ex_server
       (ex_request\<lparr>Token := ''stolen''\<rparr>))) = [EvValidate 1 (ex_request\<lparr>Token := ''stolen''\<rparr>)]"
proof -
  have eff: "effectiveValidator ex_externals ex_server (ex_request\<lparr>Token := ''stolen''\<rparr>)
      \<noteq> SignCertificateRequest_UNKNOWN ex_externals"
    by (simp add: ex_effective ex_unknown)
  have reg: "vals ex_server (effectiveValidator ex_externals ex_server
      (ex_request\<lparr>Token := ''stolen''\<rparr>)) = Some ex_validator"
    by (simp add: ex_effective ex_vals)
  have rej: "ex_validator (ex_request\<lparr>Token := ''stolen''\<rparr>) = Inl ''token rejected''"
    by (simp add: ex_validator_def ex_request_def)
  from signCertificate_validator_rejects [OF eff reg rej] rej show ?thesis
    by (simp add: ex_effective)
qed

subsection \<open>The DNS names\<close>

text \<open>
  Claim C4.  The DNS names are a function of the current namespace, the request's
  namespace and its id alone, and always a list of one name: for the injector in the
  current namespace \<open>dapr-sidecar-injector.<namespace>.svc\<close>, for the operator in the
  current namespace \<open>dapr-webhook.<namespace>.svc\<close>, and in every other case
  \<open><id>.<namespace>.svc.cluster.local\<close>.  Whenever the signer is called, these are
  the names of its request.
\<close>

theorem dnsNames_single_name:
  "(namespace = currentNamespace \<and> appID = ''dapr-injector'' \<longrightarrow>
      dnsNames currentNamespace namespace appID = [''dapr-sidecar-injector.'' @ namespace @ ''.svc''])
   \<and> (namespace = currentNamespace \<and> appID = ''dapr-operator'' \<longrightarrow>
      dnsNames currentNamespace namespace appID = [''dapr-webhook.'' @ namespace @ ''.svc''])
   \<and> (\<not> (namespace = currentNamespace \<and> (appID = ''dapr-injector'' \<or> appID = ''dapr-operator'')) \<longrightarrow>
      dnsNames currentNamespace namespace appID = [appID @ ''.'' @ namespace @ ''.svc.cluster.local''])
   \<and> length (dnsNames currentNamespace namespace appID) = 1
   \<and> (\<forall>sr. EvSignIdentity sr \<in> set (snd (signCertificate x s req)) \<longrightarrow>
        sr_DNS sr = dnsNames (CurrentNamespace x) (Namespace req) (Id req))"
  using signIdentity_event [of _ x s req] by (auto simp add: dnsNames_def)

theorem dnsNames_single_name_witness:
  "dnsNames ''dapr-system'' ''dapr-system'' ''dapr-injector'' =
     [''dapr-sidecar-injector.dapr-system.svc'']
   \<and> dnsNames ''dapr-system'' ''dapr-system'' ''dapr-operator'' = [''dapr-webhook.dapr-system.svc'']
   \<and> dnsNames ''dapr-system'' ''default'' ''myapp'' = [''myapp.default.svc.cluster.local'']
   \<and> dnsNames ''dapr-system'' ''default'' ''dapr-injector'' =
       [''dapr-injector.default.svc.cluster.local'']
   \<and> EvSignIdentity (signRequest ex_externals ex_request ex_csr ''public'')
       \<in> set (snd (signCertificate ex_externals ex_server ex_request))
   \<and> sr_DNS (signRequest ex_externals ex_request ex_csr ''public'') =
       [''orders.default.svc.cluster.local'']"
proof -
  have mem: "EvSignIdentity (signRequest ex_externals ex_request ex_csr ''public'')
       \<in> set (snd (signCertificate ex_externals ex_server ex_request))"
    by (simp add: ex_run_ok)
  have r1: "dnsNames ''dapr-system'' ''dapr-system'' ''dapr-injector'' =
     [''dapr-sidecar-injector.dapr-system.svc'']"
    using dnsNames_single_name
      [of "''dapr-system''" "''dapr-system''" "''dapr-injector''" ex_externals ex_server ex_request]
    by simp
  have r2: "dnsNames ''dapr-system'' ''dapr-system'' ''dapr-operator'' =
     [''dapr-webhook.dapr-system.svc'']"
    using dnsNames_single_name
      [of "''dapr-system''" "''dapr-system''" "''dapr-operator''" ex_externals ex_server ex_request]
    by simp
  have r3: "dnsNames ''dapr-system'' ''default'' ''myapp'' = [''myapp.default.svc.cluster.local'']"
    using dnsNames_single_name
      [of "''default''" "''dapr-system''" "''myapp''" ex_externals ex_server ex_request]
    by simp
  have r4: "dnsNames ''dapr-system'' ''default'' ''dapr-injector'' =
       [''dapr-injector.default.svc.cluster.local'']"
    using dnsNames_single_name
      [of "''default''" "''dapr-system''" "''dapr-injector''" ex_externals ex_server ex_request]
    by simp
  have r5: "sr_DNS (signRequest ex_externals ex_request ex_csr ''public'') =
       dnsNames ''dapr-system'' ''default'' ''orders''"
    using dnsNames_single_name
      [of "''default''" "''dapr-system''" "''orders''" ex_externals ex_server ex_request] mem
    by (simp add: ex_externals_def ex_request_def)
  have r6: "dnsNames ''dapr-system'' ''default'' ''orders'' = [''orders.default.svc.cluster.local'']"
    using dnsNames_single_name
      [of "''default''" "''dapr-system''" "''orders''" ex_externals ex_server ex_request]
    by simp
  from mem r1 r2 r3 r4 r5 r6 show ?thesis by simp
qed

subsection \<open>The response\<close>

text \<open>
  Claim C5.  Whenever \<open>signCertificate\<close> returns a response, the signer was called and
  returned a chain with a first certificate, and the response's \<open>ValidUntil\<close> is the
  timestamp of that certificate's \<open>NotAfter\<close>: its seconds and its nanoseconds.
\<close>

theorem signCertificate_validUntil_leaf:
  "fst (signCertificate x s req) = Return (Some resp, None) \<Longrightarrow>
     \<exists>sr leaf rest.
       EvSignIdentity sr \<in> set (snd (signCertificate x s req))
       \<and> SignIdentity (ca s) sr = Inr (Some leaf # rest)
       \<and> ValidUntil resp = \<lparr>Seconds = Unix (NotAfter leaf), Nanos = Nanosecond (NotAfter leaf)\<rparr>"
  by (auto simp add: signCertificate_def Let_def timestamppb_New_def
      split: if_splits option.splits sum.splits list.splits)

theorem signCertificate_validUntil_leaf_witness:
  "fst (signCertificate ex_externals ex_server ex_request) =
     Return (Some \<lparr>WorkloadCertificate = ''chain-pem'', TrustChainCertificates = [''anchors''],
                    ValidUntil = \<lparr>Seconds = 1700000000, Nanos = 5\<rparr>\<rparr>, None)
   \<and> (\<exists>sr leaf rest.
       EvSignIdentity sr \<in> set (snd (signCertificate ex_externals ex_server ex_request))
       \<and> SignIdentity (ca ex_server) sr = Inr (Some leaf # rest)
       \<and> \<lparr>Seconds = 1700000000, Nanos = 5\<rparr> =
           \<lparr>Seconds = Unix (NotAfter leaf), Nanos = Nanosecond (NotAfter leaf)\<rparr>)"
proof -
  have ok: "fst (signCertificate ex_externals ex_server ex_request) =
     Return (Some \<lparr>WorkloadCertificate = ''chain-pem'', TrustChainCertificates = [''anchors''],
                    ValidUntil = \<lparr>Seconds = 1700000000, Nanos = 5\<rparr>\<rparr>, None)"
    by (simp add: ex_run_ok)
  from signCertificate_validUntil_leaf [OF ok] ok show ?thesis by simp
qed

subsection \<open>Failures of the signer and of the encoder\<close>

text \<open>
  Claim C6.  Whenever the signer's \<open>SignIdentity\<close> is called and returns an error, the
  result is the nil response with an \<open>Internal\<close> error whose message is
  \<open>failed to sign certificate\<close>; whenever the encoder is called and returns an error,
  it is the nil response with an \<open>Internal\<close> error whose message is
  \<open>failed to encode certificate chain\<close>.  Neither depends on the cause.
\<close>

theorem signCertificate_internal_errors:
  "(\<forall>sr cause. EvSignIdentity sr \<in> set (snd (signCertificate x s req))
        \<and> SignIdentity (ca s) sr = Inl cause \<longrightarrow>
      fst (signCertificate x s req) =
        Return (None, Some \<lparr>code = Internal, message = ''failed to sign certificate''\<rparr>))
   \<and> (\<forall>ch cause. EvEncodeX509Chain ch \<in> set (snd (signCertificate x s req))
        \<and> EncodeX509Chain x ch = Inl cause \<longrightarrow>
      fst (signCertificate x s req) =
        Return (None, Some \<lparr>code = Internal, message = ''failed to encode certificate chain''\<rparr>))"
  by (auto simp add: signCertificate_def Let_def status_Error_def
      split: if_splits option.splits sum.splits list.splits)

theorem signCertificate_internal_errors_witness:
  "EvSignIdentity (signRequest ex_externals (ex_request\<lparr>Id := ''unsignable''\<rparr>) ex_csr ''public'')
     \<in> set (snd (signCertificate ex_externals ex_server (ex_request\<lparr>Id := ''unsignable''\<rparr>)))
   \<and> SignIdentity (ca ex_server)
       (signRequest ex_externals (ex_request\<lparr>Id := ''unsignable''\<rparr>) ex_csr ''public'') =
       Inl ''key store locked''
   \<and> fst (signCertificate ex_externals ex_server (ex_request\<lparr>Id := ''unsignable''\<rparr>)) =
       Return (None, Some \<lparr>code = Internal, message = ''failed to sign certificate''\<rparr>)
   \<and> EvEncodeX509Chain [Some ex_leaf, Some ex_issuer]
       \<in> set (snd (signCertificate (ex_externals\<lparr>EncodeX509Chain := (\<lambda>ch. Inl ''encoding failed'')\<rparr>)
                  ex_server ex_request))
   \<and> fst (signCertificate (ex_externals\<lparr>EncodeX509Chain := (\<lambda>ch. Inl ''encoding failed'')\<rparr>)
            ex_server ex_request) =
       Return (None, Some \<lparr>code = Internal, message = ''failed to encode certificate chain''\<rparr>)"
proof -
  have m1: "EvSignIdentity (signRequest ex_externals (ex_request\<lparr>Id := ''unsignable''\<rparr>) ex_csr ''public'')
     \<in> set (snd (signCertificate ex_externals ex_server (ex_request\<lparr>Id := ''unsignable''\<rparr>)))"
    by (simp add: ex_run_unsignable)
  have f1: "SignIdentity (ca ex_server)
       (signRequest ex_externals (ex_request\<lparr>Id := ''unsignable''\<rparr>) ex_csr ''public'') =
       Inl ''key store locked''"
    by (simp add: ex_server_def signRequest_def ex_request_def)
  have m2: "EvEncodeX509Chain [Some ex_leaf, Some ex_issuer]
       \<in> set (snd (signCertificate (ex_externals\<lparr>EncodeX509Chain := (\<lambda>ch. Inl ''encoding failed'')\<rparr>)
                  ex_server ex_request))"
    by (simp add: ex_run_unencodable)
  have f2: "EncodeX509Chain (ex_externals\<lparr>EncodeX509Chain := (\<lambda>ch. Inl ''encoding failed'')\<rparr>)
       [Some ex_leaf, Some ex_issuer] = Inl ''encoding failed''"
    by simp
  from signCertificate_internal_errors
    [of ex_externals ex_server "ex_request\<lparr>Id := ''unsignable''\<rparr>"] m1 f1
  have r1: "fst (signCertificate ex_externals ex_server (ex_request\<lparr>Id := ''unsignable''\<rparr>)) =
       Return (None, Some \<lparr>code = Internal, message = ''failed to sign certificate''\<rparr>)"
    by blast
  from signCertificate_internal_errors
    [of "ex_externals\<lparr>EncodeX509Chain := (\<lambda>ch. Inl ''encoding failed'')\<rparr>" ex_server ex_request]
    m2 f2
  have r2: "fst (signCertificate (ex_externals\<lparr>EncodeX509Chain := (\<lambda>ch. Inl ''encoding failed'')\<rparr>)
            ex_server ex_request) =
       Return (None, Some \<lparr>code = Internal, message = ''failed to encode certificate chain''\<rparr>)"
    by blast
  from m1 f1 r1 m2 r2 show ?thesis by blast
qed

subsection \<open>The two errors of validator resolution\<close>

text \<open>
  Claim C7, as the code has it.  Both errors of validator resolution carry the code
  \<open>InvalidArgument\<close> and a fixed message that names no validator kind, but the two
  messages differ: \<open>a validator name must be specified in this environment\<close> when the
  kind in effect is \<open>UNKNOWN\<close>, and \<open>the requested validator is not enabled\<close> when
  nothing is registered under it.
\<close>

theorem signCertificate_resolution_errors:
  "(effectiveValidator x s req = SignCertificateRequest_UNKNOWN x \<longrightarrow>
      signCertificate x s req =
        (Return (None, Some \<lparr>code = InvalidArgument,
           message = ''a validator name must be specified in this environment''\<rparr>), []))
   \<and> (effectiveValidator x s req \<noteq> SignCertificateRequest_UNKNOWN x
        \<and> vals s (effectiveValidator x s req) = None \<longrightarrow>
      signCertificate x s req =
        (Return (None, Some \<lparr>code = InvalidArgument,
           message = ''the requested validator is not enabled''\<rparr>), []))"
  by (simp add: signCertificate_def Let_def status_Error_def)

theorem signCertificate_resolution_errors_witness:
  "effectiveValidator ex_externals (ex_server\<lparr>defaultValidator := 0\<rparr>) ex_request =
     SignCertificateRequest_UNKNOWN ex_externals
   \<and> signCertificate ex_externals (ex_server\<lparr>defaultValidator := 0\<rparr>) ex_request =
        (Return (None, Some \<lparr>code = InvalidArgument,
           message = ''a validator name must be specified in this environment''\<rparr>), [])
   \<and> effectiveValidator ex_externals ex_server (ex_request\<lparr>TokenValidator := 2\<rparr>) \<noteq>
       SignCertificateRequest_UNKNOWN ex_externals
   \<and> vals ex_server (effectiveValidator ex_externals ex_server (ex_request\<lparr>TokenValidator := 2\<rparr>)) =
       None
   \<and> signCertificate ex_externals ex_server (ex_request\<lparr>TokenValidator := 2\<rparr>) =
        (Return (None, Some \<lparr>code = InvalidArgument,
           message = ''the requested validator is not enabled''\<rparr>), [])"
proof -
  have a: "effectiveValidator ex_externals (ex_server\<lparr>defaultValidator := 0\<rparr>) ex_request =
     SignCertificateRequest_UNKNOWN ex_externals"
    by (simp add: ex_effective ex_unknown)
  have b: "effectiveValidator ex_externals ex_server (ex_request\<lparr>TokenValidator := 2\<rparr>) \<noteq>
       SignCertificateRequest_UNKNOWN ex_externals"
    by (simp add: ex_effective ex_unknown)
  have c: "vals ex_server (effectiveValidator ex_externals ex_server
      (ex_request\<lparr>TokenValidator := 2\<rparr>)) = None"
    by (simp add: ex_effective ex_vals)
  from signCertificate_resolution_errors
    [of ex_externals "ex_server\<lparr>defaultValidator := 0\<rparr>" ex_request] a
  have r1: "signCertificate ex_externals (ex_server\<lparr>defaultValidator := 0\<rparr>) ex_request =
        (Return (None, Some \<lparr>code = InvalidArgument,
           message = ''a validator name must be specified in this environment''\<rparr>), [])"
    by blast
  from signCertificate_resolution_errors
    [of ex_externals ex_server "ex_request\<lparr>TokenValidator := 2\<rparr>"] b c
  have r2: "signCertificate ex_externals ex_server (ex_request\<lparr>TokenValidator := 2\<rparr>) =
        (Return (None, Some \<lparr>code = InvalidArgument,
           message = ''the requested validator is not enabled''\<rparr>), [])"
    by blast
  from a b c r1 r2 show ?thesis by blast
qed

text \<open>
  The two errors are told apart by their messages: an unspecified kind against a server
  without a default, and kind 2 against a server that registers kind 1 only.
\<close>

theorem signCertificate_resolution_errors_differ:
  "fst (signCertificate ex_externals (ex_server\<lparr>defaultValidator := 0\<rparr>) ex_request) =
     Return (None, Some \<lparr>code = InvalidArgument,
       message = ''a validator name must be specified in this environment''\<rparr>)
   \<and> fst (signCertificate ex_externals ex_server (ex_request\<lparr>TokenValidator := 2\<rparr>)) =
     Return (None, Some \<lparr>code = InvalidArgument,
       message = ''the requested validator is not enabled''\<rparr>)
   \<and> fst (signCertificate ex_externals (ex_server\<lparr>defaultValidator := 0\<rparr>) ex_request) \<noteq>
       fst (signCertificate ex_externals ex_server (ex_request\<lparr>TokenValidator := 2\<rparr>))"
  by (simp add: ex_run_unspecified ex_run_not_enabled)

section \<open>Properties of \<open>SignCertificate\<close>\<close>

text \<open>
  Claim C8, as the code has it.  Every invocation starts with the one increment of the
  received counter.  An invocation that returns without an error increments the
  succeeded counter last and no other counter; an invocation that returns an error
  increments the failed counter last and no other counter, and the tag of the failed
  counter is the fixed string \<open>sign\<close>, whatever the error was.
\<close>

theorem SignCertificate_counters:
  "(\<exists>t. snd (SignCertificate x s req) = EvCertSignRequestReceived # t
        \<and> EvCertSignRequestReceived \<notin> set t)
   \<and> (\<forall>resp. fst (SignCertificate x s req) = Return (resp, None) \<longrightarrow>
        filter isCounter (snd (SignCertificate x s req)) =
          [EvCertSignRequestReceived, EvCertSignSucceed]
        \<and> last (snd (SignCertificate x s req)) = EvCertSignSucceed)
   \<and> (\<forall>resp err. fst (SignCertificate x s req) = Return (resp, Some err) \<longrightarrow>
        filter isCounter (snd (SignCertificate x s req)) =
          [EvCertSignRequestReceived, EvCertSignFailed ''sign'']
        \<and> last (snd (SignCertificate x s req)) = EvCertSignFailed ''sign''
        \<and> resp = None)"
proof -
  have none: "filter isCounter (snd (signCertificate x s req)) = []"
    by (rule signCertificate_no_counters)
  then have "\<forall>e \<in> set (snd (signCertificate x s req)). \<not> isCounter e"
    by (simp add: filter_empty_conv)
  then have notin: "EvCertSignRequestReceived \<notin> set (snd (signCertificate x s req))"
    by auto
  show ?thesis
    using none notin
    by (auto simp add: SignCertificate_cases split: go.splits option.splits prod.splits)
qed

theorem SignCertificate_counters_witness:
  "fst (SignCertificate ex_externals ex_server ex_request) =
     Return (Some \<lparr>WorkloadCertificate = ''chain-pem'', TrustChainCertificates = [''anchors''],
                    ValidUntil = \<lparr>Seconds = 1700000000, Nanos = 5\<rparr>\<rparr>, None)
   \<and> filter isCounter (snd (SignCertificate ex_externals ex_server ex_request)) =
       [EvCertSignRequestReceived, EvCertSignSucceed]
   \<and> fst (SignCertificate ex_externals ex_server (ex_request\<lparr>Token := ''stolen''\<rparr>)) =
       Return (None, Some \<lparr>code = PermissionDenied, message = ''token rejected''\<rparr>)
   \<and> filter isCounter (snd (SignCertificate ex_externals ex_server
       (ex_request\<lparr>Token := ''stolen''\<rparr>))) =
       [EvCertSignRequestReceived, EvCertSignFailed ''sign'']"
proof -
  have ok: "fst (SignCertificate ex_externals ex_server ex_request) =
     Return (Some \<lparr>WorkloadCertificate = ''chain-pem'', TrustChainCertificates = [''anchors''],
                    ValidUntil = \<lparr>Seconds = 1700000000, Nanos = 5\<rparr>\<rparr>, None)"
    by (simp add: SignCertificate_def ex_run_ok)
  have rej: "fst (SignCertificate ex_externals ex_server (ex_request\<lparr>Token := ''stolen''\<rparr>)) =
       Return (None, Some \<lparr>code = PermissionDenied, message = ''token rejected''\<rparr>)"
    by (simp add: SignCertificate_def ex_run_rejected)
  from SignCertificate_counters [of ex_externals ex_server ex_request] ok
  have r1: "filter isCounter (snd (SignCertificate ex_externals ex_server ex_request)) =
       [EvCertSignRequestReceived, EvCertSignSucceed]"
    by blast
  from SignCertificate_counters [of ex_externals ex_server "ex_request\<lparr>Token := ''stolen''\<rparr>"] rej
  have r2: "filter isCounter (snd (SignCertificate ex_externals ex_server
       (ex_request\<lparr>Token := ''stolen''\<rparr>))) =
       [EvCertSignRequestReceived, EvCertSignFailed ''sign'']"
    by blast
  from ok rej r1 r2 show ?thesis by blast
qed

text \<open>
  Three invocations that fail at three stages, validator resolution, authentication and
  signing, with three error codes: the failed counter carries the same tag in all.
\<close>

theorem SignCertificate_failed_tag_fixed:
  "SignCertificate ex_externals (ex_server\<lparr>defaultValidator := 0\<rparr>) ex_request =
     (Return (None, Some \<lparr>code = InvalidArgument,
        message = ''a validator name must be specified in this environment''\<rparr>),
      [EvCertSignRequestReceived, EvCertSignFailed ''sign''])
   \<and> fst (SignCertificate ex_externals ex_server (ex_request\<lparr>Token := ''stolen''\<rparr>)) =
       Return (None, Some \<lparr>code = PermissionDenied, message = ''token rejected''\<rparr>)
   \<and> filter isCounter (snd (SignCertificate ex_externals ex_server
       (ex_request\<lparr>Token := ''stolen''\<rparr>))) =
       [EvCertSignRequestReceived, EvCertSignFailed ''sign'']
   \<and> fst (SignCertificate ex_externals ex_server (ex_request\<lparr>Id := ''unsignable''\<rparr>)) =
       Return (None, Some \<lparr>code = Internal, message = ''failed to sign certificate''\<rparr>)
   \<and> filter isCounter (snd (SignCertificate ex_externals ex_server
       (ex_request\<lparr>Id := ''unsignable''\<rparr>))) =
       [EvCertSignRequestReceived, EvCertSignFailed ''sign'']"
  by (simp add: SignCertificate_def ex_run_unspecified ex_run_rejected ex_run_unsignable)

section \<open>The first certificate of the chain\<close>

text \<open>
  Claim C9, as the code has it.  \<open>signCertificate\<close> reads \<open>chain[0]\<close> without a test
  of its own on the length of the chain, and a response is returned only when the signer
  returned a chain that has a first certificate.  An empty chain returned with a nil
  error goes to the encoder first: when the encoder returns an error, the result is the
  \<open>Internal\<close> error \<open>failed to encode certificate chain\<close> and \<open>chain[0]\<close> is not
  read; only when the encoder lets the empty chain pass is the read out of range, and
  the function panics.
\<close>

theorem signCertificate_chain_unchecked:
  "(\<forall>resp. fst (signCertificate x s req) = Return (Some resp, None) \<longrightarrow>
      (\<exists>sr leaf rest. EvSignIdentity sr \<in> set (snd (signCertificate x s req))
         \<and> SignIdentity (ca s) sr = Inr (Some leaf # rest)))
   \<and> (\<forall>sr cause. EvSignIdentity sr \<in> set (snd (signCertificate x s req))
         \<and> SignIdentity (ca s) sr = Inr [] \<and> EncodeX509Chain x [] = Inl cause \<longrightarrow>
      fst (signCertificate x s req) =
        Return (None, Some \<lparr>code = Internal, message = ''failed to encode certificate chain''\<rparr>)
      \<and> EvTrustAnchors \<notin> set (snd (signCertificate x s req)))
   \<and> (\<forall>sr pem. EvSignIdentity sr \<in> set (snd (signCertificate x s req))
         \<and> SignIdentity (ca s) sr = Inr [] \<and> EncodeX509Chain x [] = Inr pem \<longrightarrow>
      fst (signCertificate x s req) = Panic IndexOutOfRange)"
  by (auto simp add: signCertificate_def Let_def status_Error_def
      split: if_splits option.splits sum.splits list.splits)

theorem signCertificate_chain_unchecked_witness:
  "fst (signCertificate ex_externals ex_server ex_request) =
     Return (Some \<lparr>WorkloadCertificate = ''chain-pem'', TrustChainCertificates = [''anchors''],
                    ValidUntil = \<lparr>Seconds = 1700000000, Nanos = 5\<rparr>\<rparr>, None)
   \<and> (\<exists>sr leaf rest.
        EvSignIdentity sr \<in> set (snd (signCertificate ex_externals ex_server ex_request))
        \<and> SignIdentity (ca ex_server) sr = Inr (Some leaf # rest))
   \<and> EvSignIdentity (signRequest ex_externals ex_request ex_csr ''public'')
       \<in> set (snd (signCertificate ex_externals
           (ex_server\<lparr>ca := \<lparr>SignIdentity = (\<lambda>sr. Inr []), TrustAnchors = ''anchors''\<rparr>\<rparr>)
           ex_request))
   \<and> EncodeX509Chain ex_externals [] = Inl ''no certificates in chain''
   \<and> fst (signCertificate ex_externals
           (ex_server\<lparr>ca := \<lparr>SignIdentity = (\<lambda>sr. Inr []), TrustAnchors = ''anchors''\<rparr>\<rparr>)
           ex_request) =
       Return (None, Some \<lparr>code = Internal, message = ''failed to encode certificate chain''\<rparr>)
   \<and> EvSignIdentity (signRequest ex_externals ex_request ex_csr ''public'')
       \<in> set (snd (signCertificate (ex_externals\<lparr>EncodeX509Chain := (\<lambda>ch. Inr '''')\<rparr>)
           (ex_server\<lparr>ca := \<lparr>SignIdentity = (\<lambda>sr. Inr []), TrustAnchors = ''anchors''\<rparr>\<rparr>)
           ex_request))
   \<and> fst (signCertificate (ex_externals\<lparr>EncodeX509Chain := (\<lambda>ch. Inr '''')\<rparr>)
           (ex_server\<lparr>ca := \<lparr>SignIdentity = (\<lambda>sr. Inr []), TrustAnchors = ''anchors''\<rparr>\<rparr>)
           ex_request) = Panic IndexOutOfRange"
proof -
  let ?lenient = "ex_externals\<lparr>EncodeX509Chain := (\<lambda>ch. Inr '''')\<rparr>"
  let ?empty = "ex_server\<lparr>ca := \<lparr>SignIdentity = (\<lambda>sr. Inr []), TrustAnchors = ''anchors''\<rparr>\<rparr>"
  let ?sr = "signRequest ex_externals ex_request ex_csr ''public''"
  have ok: "fst (signCertificate ex_externals ex_server ex_request) =
     Return (Some \<lparr>WorkloadCertificate = ''chain-pem'', TrustChainCertificates = [''anchors''],
                    ValidUntil = \<lparr>Seconds = 1700000000, Nanos = 5\<rparr>\<rparr>, None)"
    by (simp add: ex_run_ok)
  from signCertificate_chain_unchecked [of ex_externals ex_server ex_request] ok
  have r1: "\<exists>sr leaf rest.
        EvSignIdentity sr \<in> set (snd (signCertificate ex_externals ex_server ex_request))
        \<and> SignIdentity (ca ex_server) sr = Inr (Some leaf # rest)"
    by blast
  have e: "SignIdentity (ca ?empty) ?sr = Inr []" by simp
  have m2: "EvSignIdentity ?sr \<in> set (snd (signCertificate ex_externals ?empty ex_request))"
    by (simp add: ex_run_empty_chain)
  have p2: "EncodeX509Chain ex_externals [] = Inl ''no certificates in chain''"
    by (simp add: ex_externals_def)
  from signCertificate_chain_unchecked [of ex_externals ?empty ex_request] m2 e p2
  have r2: "fst (signCertificate ex_externals ?empty ex_request) =
      Return (None, Some \<lparr>code = Internal, message = ''failed to encode certificate chain''\<rparr>)"
    by blast
  have m3: "EvSignIdentity ?sr \<in> set (snd (signCertificate ?lenient ?empty ex_request))"
    by (simp add: ex_run_empty_chain_encoded)
  have p3: "EncodeX509Chain ?lenient [] = Inr ''''" by simp
  from signCertificate_chain_unchecked [of ?lenient ?empty ex_request] m3 e p3
  have r3: "fst (signCertificate ?lenient ?empty ex_request) = Panic IndexOutOfRange"
    by blast
  from ok r1 m2 p2 r2 m3 r3 show ?thesis by blast
qed

text \<open>
  A signer that returns the empty chain with a nil error, and an encoder that refuses
  the empty chain: the call returns the encoder's \<open>Internal\<close> error, and does not
  panic.
\<close>

theorem signCertificate_empty_chain_error_branch:
  "SignIdentity (ca (ex_server\<lparr>ca := \<lparr>SignIdentity = (\<lambda>sr. Inr []), TrustAnchors = ''anchors''\<rparr>\<rparr>))
       (signRequest ex_externals ex_request ex_csr ''public'') = Inr []
   \<and> EvSignIdentity (signRequest ex_externals ex_request ex_csr ''public'')
       \<in> set (snd (signCertificate ex_externals
           (ex_server\<lparr>ca := \<lparr>SignIdentity = (\<lambda>sr. Inr []), TrustAnchors = ''anchors''\<rparr>\<rparr>)
           ex_request))
   \<and> fst (signCertificate ex_externals
           (ex_server\<lparr>ca := \<lparr>SignIdentity = (\<lambda>sr. Inr []), TrustAnchors = ''anchors''\<rparr>\<rparr>)
           ex_request) =
       Return (None, Some \<lparr>code = Internal, message = ''failed to encode certificate chain''\<rparr>)
   \<and> fst (signCertificate ex_externals
           (ex_server\<lparr>ca := \<lparr>SignIdentity = (\<lambda>sr. Inr []), TrustAnchors = ''anchors''\<rparr>\<rparr>)
           ex_request) \<noteq> Panic IndexOutOfRange"
  by (simp add: ex_run_empty_chain)

end
